theory Spec2Isabelle
  imports Main "HOL-Library.Word" "HOL-Library.Sublist"
begin

section \<open>The fleet-metal server: construction, lifecycle and HTTP handlers\<close>

text \<open>
  The package \<open>server\<close> exists in two variants of \<open>server.go\<close>. The hardware variant
  (with \<open>routes\<close>, and the \<open>security\<close> manager that \<open>handleStatus\<close> reads) is modelled
  under the source's names. The integration-layer variant (\<open>internal/server/server.go\<close>,
  which wires the \<open>state\<close> and \<open>diag\<close> managers instead) is modelled under the same names
  with the suffix \<open>_diag\<close>.

  A goroutine started with \<open>go\<close> is modelled by what it does on its own: whether it
  ever ends, and what it logs. The calling goroutine is modelled by its result, the
  fields it writes and the sequence of calls it makes (its trace). Collaborators that live
  in other packages (the monitors, \<open>net/http\<close>, the clock, the context) are parameters:
  an environment record gives the outcome of each of their calls.
\<close>

subsection \<open>Errors\<close>

text \<open>
  A Go \<open>error\<close> value. \<open>Errorf m\<close> is \<open>fmt.Errorf(m)\<close> without a \<open>%w\<close> verb,
  \<open>Wrapf p e\<close> is \<open>fmt.Errorf(p + ": %w", e)\<close>. A nil error is \<open>None\<close> of
  \<open>error option\<close>.
\<close>

datatype error =
    ErrServerClosed
  | DeadlineExceeded
  | External string
  | Errorf string
  | Wrapf string error

fun Error_text :: "error \<Rightarrow> string" where
  "Error_text ErrServerClosed = ''http: Server closed''"
| "Error_text DeadlineExceeded = ''context deadline exceeded''"
| "Error_text (External m) = m"
| "Error_text (Errorf m) = m"
| "Error_text (Wrapf p e) = p @ '': '' @ Error_text e"

fun Unwrap :: "error \<Rightarrow> error option" where
  "Unwrap (Wrapf p e) = Some e"
| "Unwrap e = None"

text \<open>The verb \<open>%v\<close> applied to an error that may be nil.\<close>

fun fmt_v :: "error option \<Rightarrow> string" where
  "fmt_v None = ''<nil>''"
| "fmt_v (Some e) = Error_text e"

subsection \<open>Calls, subsystems and goroutines\<close>

datatype subsystem = GPIO | Power | Thermal | Security | State | Diagnostics | HTTP

text \<open>
  The calls of one goroutine, in program order: a constructor of a collaborator package;
  the four operations on the server's \<open>sync.RWMutex\<close> (the field \<open>mux\<close>, which
  the model keeps in the trace rather than in the server record); a \<open>go\<close> statement;
  the receive from \<open>ctx.Done()\<close>; \<open>context.WithTimeout\<close> with its duration in
  nanoseconds; \<open>httpServer.Shutdown\<close> with the timeout of the context it is given;
  the deferred \<open>cancel\<close>; a monitor's \<open>GetState\<close>; \<open>time.Now\<close>; setting a
  response header; \<open>http.Error\<close> with its status code; \<open>Encode\<close> on the response.
\<close>

datatype event =
    Construct subsystem
  | Mu_Lock
  | Mu_Unlock
  | Mu_RLock
  | Mu_RUnlock
  | Go subsystem
  | Await_Done
  | With_Timeout int
  | Shutdown_call int
  | Cancel_call
  | Get_State subsystem
  | Time_Now
  | Header_Set_call string string
  | Error_call nat
  | Encode_call

text \<open>A blocking call either never returns or returns a value.\<close>

datatype 'a outcome = Blocks | Returns 'a

text \<open>A goroutine either runs for ever or ends, having printed some log lines.\<close>

datatype task_end = Still_running | Exited "string list"

subsection \<open>Opaque collaborators\<close>

type_synonym gpio_Controller = nat
type_synonym power_Manager = nat
type_synonym secure_Manager = nat
type_synonym thermal_Monitor = nat
type_synonym state_Manager = nat
type_synonym diagnostics_Manager = nat

text \<open>
  A \<open>float64\<close> is only ever copied by this package, never computed with: it is its
  64 bits. It is a finite number unless the eleven exponent bits (bits 52 to 62) are all
  ones, which is the case exactly for the NaNs and the two infinities
  (\<open>math.IsNaN\<close>, \<open>math.IsInf\<close>). \<open>time.Time\<close> is the number of nanoseconds since
  the zero time, the start of the year 1.
\<close>

type_synonym float64 = "64 word"
type_synonym Time = int

definition float64_finite :: "float64 \<Rightarrow> bool" where
  "float64_finite x = ((unat x div 2 ^ 52) mod 2 ^ 11 \<noteq> 2047)"


definition time_Second :: int where
  "time_Second = 1000000000"

text \<open>
  The seconds from the zero time to the Unix epoch, as package \<open>time\<close> has them:
  \<open>(1969*365 + 1969/4 - 1969/100 + 1969/400) * 86400\<close>.
\<close>

definition unixToInternal :: int where
  "unixToInternal = 62135596800"

subsection \<open>The server and its configuration\<close>

datatype handler = HandleHealth | HandleStatus

record http_Server =
  Addr :: string
  Handler :: "(string \<times> handler) list"

record Server =
  gpio :: gpio_Controller
  power :: power_Manager
  security :: secure_Manager
  thermal :: thermal_Monitor
  deviceID :: string
  httpServer :: http_Server
  started :: bool

record Config =
  DeviceID :: string
  HTTPAddr :: string

text \<open>
  The constructors of the hardware packages, each given the fields of the configuration
  struct that \<open>New\<close> fills in. A constructor returns either an error or the object.
\<close>

record new_env =
  gpio_New :: "error + gpio_Controller"
  power_New :: "gpio_Controller \<Rightarrow> string \<Rightarrow> error + power_Manager"
  thermal_New :: "gpio_Controller \<Rightarrow> string \<Rightarrow> error + thermal_Monitor"
  secure_New :: "gpio_Controller \<Rightarrow> string \<Rightarrow> error + secure_Manager"
  state_New :: "string \<Rightarrow> error + state_Manager"
  diagnostics_New :: "string \<Rightarrow> gpio_Controller \<Rightarrow> error + diagnostics_Manager"

text \<open>\<open>routes\<close> registers the two handlers on a fresh \<open>ServeMux\<close>.\<close>

definition routes :: "(string \<times> handler) list" where
  "routes = [(''/health'', HandleHealth), (''/api/v1/status'', HandleStatus)]"

text \<open>
  \<open>New\<close> returns the pair \<open>(*Server, error)\<close> of the source, each component nil
  (\<open>None\<close>) or not, and the constructors it has called.
\<close>

definition New :: "new_env \<Rightarrow> Config \<Rightarrow> (Server option \<times> error option) \<times> event list" where
  "New env cfg =
    (if DeviceID cfg = [] then ((None, Some (Errorf ''device ID is required'')), [])
     else case gpio_New env of
       Inl err \<Rightarrow> ((None, Some (Wrapf ''failed to initialize GPIO'' err)), [Construct GPIO])
     | Inr gpioCtrl \<Rightarrow>
    (case power_New env gpioCtrl (DeviceID cfg) of
       Inl err \<Rightarrow> ((None, Some (Wrapf ''failed to initialize power management'' err)),
                   [Construct GPIO, Construct Power])
     | Inr powerMgr \<Rightarrow>
    (case thermal_New env gpioCtrl (DeviceID cfg) of
       Inl err \<Rightarrow> ((None, Some (Wrapf ''failed to initialize thermal management'' err)),
                   [Construct GPIO, Construct Power, Construct Thermal])
     | Inr thermalMgr \<Rightarrow>
    (case secure_New env gpioCtrl (DeviceID cfg) of
       Inl err \<Rightarrow> ((None, Some (Wrapf ''failed to initialize security management'' err)),
                   [Construct GPIO, Construct Power, Construct Thermal, Construct Security])
     | Inr securityMgr \<Rightarrow>
         ((Some \<lparr>gpio = gpioCtrl, power = powerMgr, security = securityMgr,
                 thermal = thermalMgr, deviceID = DeviceID cfg,
                 httpServer = \<lparr>Addr = HTTPAddr cfg, Handler = routes\<rparr>,
                 started = False\<rparr>, None),
          [Construct GPIO, Construct Power, Construct Thermal, Construct Security])))))"

subsection \<open>The integration-layer variant of the server\<close>

record Server_diag =
  deviceID_diag :: string
  httpAddr_diag :: string
  gpio_diag :: gpio_Controller
  power_diag :: power_Manager
  thermal_diag :: thermal_Monitor
  state_diag :: state_Manager
  diag_diag :: diagnostics_Manager
  httpServer_diag :: http_Server
  started_diag :: bool

definition New_diag ::
  "new_env \<Rightarrow> Config \<Rightarrow> (Server_diag option \<times> error option) \<times> event list" where
  "New_diag env cfg =
    (if DeviceID cfg = [] then ((None, Some (Errorf ''device ID is required'')), [])
     else case gpio_New env of
       Inl err \<Rightarrow> ((None, Some (Wrapf ''failed to initialize GPIO'' err)), [Construct GPIO])
     | Inr gpioCtrl \<Rightarrow>
    (case power_New env gpioCtrl (DeviceID cfg) of
       Inl err \<Rightarrow> ((None, Some (Wrapf ''failed to initialize power manager'' err)),
                   [Construct GPIO, Construct Power])
     | Inr powerMgr \<Rightarrow>
    (case thermal_New env gpioCtrl (DeviceID cfg) of
       Inl err \<Rightarrow> ((None, Some (Wrapf ''failed to initialize thermal manager'' err)),
                   [Construct GPIO, Construct Power, Construct Thermal])
     | Inr thermalMgr \<Rightarrow>
    (case state_New env (DeviceID cfg) of
       Inl err \<Rightarrow> ((None, Some (Wrapf ''failed to initialize state manager'' err)),
                   [Construct GPIO, Construct Power, Construct Thermal, Construct State])
     | Inr stateMgr \<Rightarrow>
    (case diagnostics_New env (DeviceID cfg) gpioCtrl of
       Inl err \<Rightarrow> ((None, Some (Wrapf ''failed to initialize diagnostics'' err)),
                   [Construct GPIO, Construct Power, Construct Thermal, Construct State,
                    Construct Diagnostics])
     | Inr diagMgr \<Rightarrow>
         ((Some \<lparr>deviceID_diag = DeviceID cfg, httpAddr_diag = HTTPAddr cfg,
                 gpio_diag = gpioCtrl, power_diag = powerMgr, thermal_diag = thermalMgr,
                 state_diag = stateMgr, diag_diag = diagMgr,
                 httpServer_diag = \<lparr>Addr = HTTPAddr cfg, Handler = routes\<rparr>,
                 started_diag = False\<rparr>, None),
          [Construct GPIO, Construct Power, Construct Thermal, Construct State,
           Construct Diagnostics]))))))"

subsection \<open>Running the server\<close>

text \<open>
  What the collaborators do during one call of \<open>Run\<close>: whether the context's \<open>Done\<close>
  channel is ever closed, how each monitoring loop and \<open>ListenAndServe\<close> end (if they
  do), and what \<open>Shutdown\<close> returns when it is given a context with the timeout \<open>d\<close>.
\<close>

record run_env =
  ctx_Done :: bool
  power_Monitor :: "error option outcome"
  thermal_Monitor :: "error option outcome"
  security_Monitor :: "error option outcome"
  state_Run :: "error option outcome"
  diag_Run :: "error option outcome"
  ListenAndServe :: "error option outcome"
  Shutdown :: "int \<Rightarrow> error option"

text \<open>
  The body of a monitor goroutine:
  \<open>if err := m.Monitor(ctx); err != nil { log.Printf(label + "%v", err) }\<close>.
\<close>

definition monitor_task :: "string \<Rightarrow> error option outcome \<Rightarrow> task_end" where
  "monitor_task label out =
    (case out of
       Blocks \<Rightarrow> Still_running
     | Returns None \<Rightarrow> Exited []
     | Returns (Some err) \<Rightarrow> Exited [label @ Error_text err])"

text \<open>
  The body of the listener goroutine:
  \<open>if err := s.httpServer.ListenAndServe(); err != http.ErrServerClosed { log.Printf(...) }\<close>.
\<close>

definition listen_task :: "error option outcome \<Rightarrow> task_end" where
  "listen_task out =
    (case out of
       Blocks \<Rightarrow> Still_running
     | Returns err \<Rightarrow>
         (if err \<noteq> Some ErrServerClosed then Exited [''HTTP server error: '' @ fmt_v err]
          else Exited []))"

text \<open>
  The result of a call of \<open>Run\<close>: what it returns (if it returns), the server afterwards,
  the calls of the calling goroutine, and the goroutines it has started.
\<close>

record run_out =
  ret :: "error option outcome"
  srv :: Server
  trace :: "event list"
  tasks :: "(subsystem \<times> task_end) list"

definition Run :: "run_env \<Rightarrow> Server \<Rightarrow> run_out" where
  "Run env s =
    (if started s then
       \<lparr>ret = Returns (Some (Errorf ''server already started'')), srv = s,
        trace = [Mu_Lock, Mu_Unlock], tasks = []\<rparr>
     else
       let s' = s\<lparr>started := True\<rparr>;
           spawned =
             [(Power, monitor_task ''Power monitoring error: '' (power_Monitor env)),
              (Thermal, monitor_task ''Thermal monitoring error: '' (thermal_Monitor env)),
              (Security, monitor_task ''Security monitoring error: '' (security_Monitor env)),
              (HTTP, listen_task (ListenAndServe env))];
           calls = [Mu_Lock, Mu_Unlock, Go Power, Go Thermal, Go Security, Go HTTP, Await_Done]
       in if \<not> ctx_Done env then
            \<lparr>ret = Blocks, srv = s', trace = calls, tasks = spawned\<rparr>
          else
            let timeout = 30 * time_Second;
                calls' = calls @ [With_Timeout timeout, Shutdown_call timeout, Cancel_call]
            in case Shutdown env timeout of
                 Some err \<Rightarrow>
                   \<lparr>ret = Returns (Some (Wrapf ''error shutting down HTTP server'' err)),
                    srv = s', trace = calls', tasks = spawned\<rparr>
               | None \<Rightarrow>
                   \<lparr>ret = Returns None, srv = s', trace = calls', tasks = spawned\<rparr>)"

record run_out_diag =
  ret_diag :: "error option outcome"
  srv_diag :: Server_diag
  trace_diag :: "event list"
  tasks_diag :: "(subsystem \<times> task_end) list"

definition Run_diag :: "run_env \<Rightarrow> Server_diag \<Rightarrow> run_out_diag" where
  "Run_diag env s =
    (if started_diag s then
       \<lparr>ret_diag = Returns (Some (Errorf ''server already started'')), srv_diag = s,
        trace_diag = [Mu_Lock, Mu_Unlock], tasks_diag = []\<rparr>
     else
       let s' = s\<lparr>started_diag := True\<rparr>;
           spawned =
             [(Power, monitor_task ''Power monitoring error: '' (power_Monitor env)),
              (Thermal, monitor_task ''Thermal monitoring error: '' (thermal_Monitor env)),
              (State, monitor_task ''State manager error: '' (state_Run env)),
              (Diagnostics, monitor_task ''Diagnostics error: '' (diag_Run env)),
              (HTTP, listen_task (ListenAndServe env))];
           calls = [Mu_Lock, Mu_Unlock, Go Power, Go Thermal, Go State, Go Diagnostics,
                    Go HTTP, Await_Done]
       in if \<not> ctx_Done env then
            \<lparr>ret_diag = Blocks, srv_diag = s', trace_diag = calls, tasks_diag = spawned\<rparr>
          else
            let timeout = 30 * time_Second;
                calls' = calls @ [With_Timeout timeout, Shutdown_call timeout, Cancel_call]
            in case Shutdown env timeout of
                 Some err \<Rightarrow>
                   \<lparr>ret_diag = Returns (Some (Wrapf ''error shutting down HTTP server'' err)),
                    srv_diag = s', trace_diag = calls', tasks_diag = spawned\<rparr>
               | None \<Rightarrow>
                   \<lparr>ret_diag = Returns None, srv_diag = s', trace_diag = calls',
                    tasks_diag = spawned\<rparr>)"

subsection \<open>The HTTP handlers\<close>

record PowerState =
  BatteryLevel :: float64
  Charging :: bool
  Voltage :: float64

record ThermalState =
  CPUTemp :: float64
  GPUTemp :: float64
  AmbientTemp :: float64
  FanSpeed :: int
  Throttled :: bool

record TamperState =
  CaseOpen :: bool
  MotionDetected :: bool
  VoltageNormal :: bool

text \<open>
  \<open>SystemStatus\<close> and its anonymous nested structs; the fields carry the struct's
  name as a prefix where the monitors' state types use the same field names.
\<close>

record Health_Power =
  Power_BatteryLevel :: float64
  Power_Charging :: bool
  Power_Voltage :: float64

record Health_Thermal =
  Thermal_CPUTemp :: float64
  Thermal_GPUTemp :: float64
  Thermal_AmbientTemp :: float64
  Thermal_FanSpeed :: int
  Thermal_Throttled :: bool

record Health_Security =
  Security_CaseOpen :: bool
  Security_MotionDetected :: bool
  Security_VoltageNormal :: bool

record Health =
  Health_Power :: Health_Power
  Health_Thermal :: Health_Thermal
  Health_Security :: Health_Security

record SystemStatus =
  Status_DeviceID :: string
  Status_Time :: Time
  Status_Health :: Health

text \<open>
  What is written to the response body. \<open>json.Encoder.Encode\<close> is not modelled down to
  bytes: when it succeeds, the body holds the value that was handed to it. It marshals
  the whole value before it writes anything, so when it fails it writes nothing; the
  handlers discard the error it returns.
\<close>

datatype payload =
    Plain string
  | Json_map "(string \<times> string) list"
  | Json_status SystemStatus

record Request =
  Method :: string
  Path :: string

text \<open>
  The response writer, as \<open>httptest.ResponseRecorder\<close>: the status code is 200 until
  \<open>WriteHeader\<close> sets it, once, and the first write sets it to 200 if nothing has.
\<close>

record ResponseRecorder =
  Code :: nat
  HeaderMap :: "string \<rightharpoonup> string"
  Body :: "payload list"
  wroteHeader :: bool

definition NewRecorder :: ResponseRecorder where
  "NewRecorder = \<lparr>Code = 200, HeaderMap = Map.empty, Body = [], wroteHeader = False\<rparr>"

definition Header_Set :: "ResponseRecorder \<Rightarrow> string \<Rightarrow> string \<Rightarrow> ResponseRecorder" where
  "Header_Set w k v = w\<lparr>HeaderMap := (HeaderMap w)(k \<mapsto> v)\<rparr>"

definition WriteHeader :: "ResponseRecorder \<Rightarrow> nat \<Rightarrow> ResponseRecorder" where
  "WriteHeader w code = (if wroteHeader w then w else w\<lparr>Code := code, wroteHeader := True\<rparr>)"

definition Write :: "ResponseRecorder \<Rightarrow> payload \<Rightarrow> ResponseRecorder" where
  "Write w p = (let w' = WriteHeader w 200 in w'\<lparr>Body := Body w' @ [p]\<rparr>)"

definition http_Error :: "ResponseRecorder \<Rightarrow> string \<Rightarrow> nat \<Rightarrow> ResponseRecorder" where
  "http_Error w msg code =
    (let w1 = Header_Set w ''Content-Type'' ''text/plain; charset=utf-8'';
         w2 = Header_Set w1 ''X-Content-Type-Options'' ''nosniff'';
         w3 = WriteHeader w2 code
     in Write w3 (Plain (msg @ [CHR 0x0A])))"

definition MethodGet :: string where
  "MethodGet = ''GET''"

definition StatusOK :: nat where
  "StatusOK = 200"

definition StatusNotFound :: nat where
  "StatusNotFound = 404"

definition StatusMethodNotAllowed :: nat where
  "StatusMethodNotAllowed = 405"

text \<open>
  The monitors' snapshot accessors and the clock, as one request sees them. The clock is
  the system's real-time clock, which counts nanoseconds from the Unix epoch and does not
  run before it. \<open>Time_MarshalJSON\<close> tells whether \<open>time.Time.MarshalJSON\<close> accepts
  a reading: it refuses a year outside 0 to 9999, counted in the location the clock
  reports in.
\<close>

record status_env =
  power_GetState :: "power_Manager \<Rightarrow> PowerState"
  thermal_GetState :: "thermal_Monitor \<Rightarrow> ThermalState"
  security_GetState :: "secure_Manager \<Rightarrow> TamperState"
  clock_UnixNano :: nat
  Time_MarshalJSON :: "Time \<Rightarrow> bool"

definition time_Now :: "status_env \<Rightarrow> Time" where
  "time_Now env = unixToInternal * time_Second + int (clock_UnixNano env)"

text \<open>
  Whether \<open>encoding/json\<close> marshals a \<open>SystemStatus\<close>: it returns an
  \<open>UnsupportedValueError\<close> for a float that is a NaN or an infinity, and the error of
  \<open>MarshalJSON\<close> for the time. Strings, booleans and integers always marshal.
\<close>

definition json_Marshal_ok :: "status_env \<Rightarrow> SystemStatus \<Rightarrow> bool" where
  "json_Marshal_ok env v =
    (Time_MarshalJSON env (Status_Time v) \<and>
     float64_finite (Power_BatteryLevel (Health_Power (Status_Health v))) \<and>
     float64_finite (Power_Voltage (Health_Power (Status_Health v))) \<and>
     float64_finite (Thermal_CPUTemp (Health_Thermal (Status_Health v))) \<and>
     float64_finite (Thermal_GPUTemp (Health_Thermal (Status_Health v))) \<and>
     float64_finite (Thermal_AmbientTemp (Health_Thermal (Status_Health v))))"

text \<open>
  \<open>json.NewEncoder(w).Encode(status)\<close>, with its error dropped as the handler drops
  it: the response is written to only when the value marshals.
\<close>

definition Encode_status ::
  "status_env \<Rightarrow> ResponseRecorder \<Rightarrow> SystemStatus \<Rightarrow> ResponseRecorder" where
  "Encode_status env w v = (if json_Marshal_ok env v then Write w (Json_status v) else w)"

text \<open>
  A handler returns the server as it leaves it, the response, and its calls.
\<close>

definition handleHealth ::
  "Server \<Rightarrow> ResponseRecorder \<Rightarrow> Request \<Rightarrow> Server \<times> ResponseRecorder \<times> event list" where
  "handleHealth s w r =
    (if Method r \<noteq> MethodGet then
       (s, http_Error w ''Method not allowed'' StatusMethodNotAllowed,
        [Error_call StatusMethodNotAllowed])
     else
       let w1 = Header_Set w ''Content-Type'' ''application/json'';
           w2 = Write w1 (Json_map [(''status'', ''ok'')])
       in (s, w2, [Header_Set_call ''Content-Type'' ''application/json'', Encode_call]))"

definition handleStatus ::
  "status_env \<Rightarrow> Server \<Rightarrow> ResponseRecorder \<Rightarrow> Request \<Rightarrow>
   Server \<times> ResponseRecorder \<times> event list" where
  "handleStatus env s w r =
    (if Method r \<noteq> MethodGet then
       (s, http_Error w ''Method not allowed'' StatusMethodNotAllowed,
        [Error_call StatusMethodNotAllowed])
     else
       let powerState = power_GetState env (power s);
           thermalState = thermal_GetState env (thermal s);
           securityState = security_GetState env (security s);
           status =
             \<lparr>Status_DeviceID = deviceID s,
              Status_Time = time_Now env,
              Status_Health =
                \<lparr>Health_Power =
                   \<lparr>Power_BatteryLevel = BatteryLevel powerState,
                    Power_Charging = Charging powerState,
                    Power_Voltage = Voltage powerState\<rparr>,
                 Health_Thermal =
                   \<lparr>Thermal_CPUTemp = CPUTemp thermalState,
                    Thermal_GPUTemp = GPUTemp thermalState,
                    Thermal_AmbientTemp = AmbientTemp thermalState,
                    Thermal_FanSpeed = FanSpeed thermalState,
                    Thermal_Throttled = Throttled thermalState\<rparr>,
                 Health_Security =
                   \<lparr>Security_CaseOpen = CaseOpen securityState,
                    Security_MotionDetected = MotionDetected securityState,
                    Security_VoltageNormal = VoltageNormal securityState\<rparr>\<rparr>\<rparr>;
           w1 = Header_Set w ''Content-Type'' ''application/json'';
           w2 = Encode_status env w1 status
       in (s, w2,
           [Mu_RLock, Get_State Power, Get_State Thermal, Get_State Security, Time_Now,
            Header_Set_call ''Content-Type'' ''application/json'', Encode_call, Mu_RUnlock]))"

text \<open>
  \<open>ServeMux.ServeHTTP\<close> on the table that \<open>routes\<close> builds: both patterns are
  fixed paths without a trailing slash, so a request reaches a handler exactly when its
  path is the pattern, whatever its method. Any other path is answered by
  \<open>http.NotFound\<close> here (the redirects of the mux for paths that are not clean are
  left out).
\<close>

definition ServeHTTP ::
  "(string \<times> handler) list \<Rightarrow> status_env \<Rightarrow> Server \<Rightarrow> ResponseRecorder \<Rightarrow> Request \<Rightarrow>
   Server \<times> ResponseRecorder \<times> event list" where
  "ServeHTTP table env s w r =
    (case map_of table (Path r) of
       None \<Rightarrow> (s, http_Error w ''404 page not found'' StatusNotFound, [Error_call StatusNotFound])
     | Some HandleHealth \<Rightarrow> handleHealth s w r
     | Some HandleStatus \<Rightarrow> handleStatus env s w r)"

text \<open>The calls made while the server's read lock is held.\<close>

fun under_RLock :: "bool \<Rightarrow> event list \<Rightarrow> event list" where
  "under_RLock held [] = []"
| "under_RLock held (Mu_RLock # es) = under_RLock True es"
| "under_RLock held (Mu_RUnlock # es) = under_RLock False es"
| "under_RLock held (e # es) = (if held then e # under_RLock held es else under_RLock held es)"

subsection \<open>Sequences of operations on one server\<close>

datatype operation = Op_Run run_env | Op_Request status_env Request

fun step :: "Server \<Rightarrow> operation \<Rightarrow> Server" where
  "step s (Op_Run env) = srv (Run env s)"
| "step s (Op_Request env r) = fst (ServeHTTP (Handler (httpServer s)) env s NewRecorder r)"

definition exec :: "Server \<Rightarrow> operation list \<Rightarrow> Server" where
  "exec s ops = foldl step s ops"

definition exec_diag :: "Server_diag \<Rightarrow> run_env list \<Rightarrow> Server_diag" where
  "exec_diag s envs = foldl (\<lambda>s env. srv_diag (Run_diag env s)) s envs"

subsection \<open>Concrete servers and environments\<close>

text \<open>The configuration of the package's test, and collaborators that all succeed.\<close>

definition test_config :: Config where
  "test_config = \<lparr>DeviceID = ''test-device-001'', HTTPAddr = '':0''\<rparr>"

definition ok_new_env :: new_env where
  "ok_new_env =
    \<lparr>gpio_New = Inr 1,
     power_New = (\<lambda>g d. Inr 2),
     thermal_New = (\<lambda>g d. Inr 3),
     secure_New = (\<lambda>g d. Inr 4),
     state_New = (\<lambda>d. Inr 5),
     diagnostics_New = (\<lambda>d g. Inr 6)\<rparr>"

definition test_server :: Server where
  "test_server =
    \<lparr>gpio = 1, power = 2, security = 4, thermal = 3, deviceID = ''test-device-001'',
     httpServer = \<lparr>Addr = '':0'', Handler = routes\<rparr>, started = False\<rparr>"

definition test_server_diag :: Server_diag where
  "test_server_diag =
    \<lparr>deviceID_diag = ''test-device-001'', httpAddr_diag = '':0'', gpio_diag = 1,
     power_diag = 2, thermal_diag = 3, state_diag = 5, diag_diag = 6,
     httpServer_diag = \<lparr>Addr = '':0'', Handler = routes\<rparr>, started_diag = False\<rparr>"

text \<open>
  A run in which the context is cancelled, every monitoring loop then ends without an
  error, the listener ends with \<open>ErrServerClosed\<close> and \<open>Shutdown\<close> succeeds.
\<close>

definition quiet_run_env :: run_env where
  "quiet_run_env =
    \<lparr>ctx_Done = True,
     power_Monitor = Returns None,
     thermal_Monitor = Returns None,
     security_Monitor = Returns None,
     state_Run = Returns None,
     diag_Run = Returns None,
     ListenAndServe = Returns (Some ErrServerClosed),
     Shutdown = (\<lambda>d. None)\<rparr>"

text \<open>
  A listener that needs 45 seconds to finish its requests: \<open>Shutdown\<close> returns the
  context's error when its deadline comes first.
\<close>

definition slow_Shutdown :: "int \<Rightarrow> error option" where
  "slow_Shutdown d = (if d < 45 * time_Second then Some DeadlineExceeded else None)"

text \<open>
  \<open>MarshalJSON\<close> for a clock that reports in UTC: the years 0 to 9999 begin 366 days
  before the zero time and end 3652059 days after it. The snapshots below hold finite
  floats, and the clock reads a date in November 2025.
\<close>

definition utc_MarshalJSON :: "Time \<Rightarrow> bool" where
  "utc_MarshalJSON t =
    (- (31622400 * time_Second) \<le> t \<and> t < 315537897600 * time_Second)"

definition test_status_env :: status_env where
  "test_status_env =
    \<lparr>power_GetState = (\<lambda>m. \<lparr>BatteryLevel = 7, Charging = True, Voltage = 9\<rparr>),
     thermal_GetState = (\<lambda>m. \<lparr>CPUTemp = 11, GPUTemp = 12, AmbientTemp = 13, FanSpeed = 1200,
                               Throttled = False\<rparr>),
     security_GetState = (\<lambda>m. \<lparr>CaseOpen = False, MotionDetected = False,
                                VoltageNormal = True\<rparr>),
     clock_UnixNano = 1762000000000000000,
     Time_MarshalJSON = utc_MarshalJSON\<rparr>"


definition get_status :: Request where
  "get_status = \<lparr>Method = ''GET'', Path = ''/api/v1/status''\<rparr>"

definition post_status :: Request where
  "post_status = \<lparr>Method = ''POST'', Path = ''/api/v1/status''\<rparr>"

definition get_health :: Request where
  "get_health = \<lparr>Method = ''GET'', Path = ''/health''\<rparr>"

definition post_health :: Request where
  "post_health = \<lparr>Method = ''POST'', Path = ''/health''\<rparr>"

text \<open>The timeouts of the \<open>Shutdown\<close> calls in a trace.\<close>

fun shutdown_calls :: "event list \<Rightarrow> int list" where
  "shutdown_calls [] = []"
| "shutdown_calls (Shutdown_call d # es) = d # shutdown_calls es"
| "shutdown_calls (e # es) = shutdown_calls es"

text \<open>The error that a call has returned, if it has returned one.\<close>

fun returned_error :: "error option outcome \<Rightarrow> error option" where
  "returned_error (Returns (Some e)) = Some e"
| "returned_error out = None"

text \<open>The goroutines started in a trace.\<close>

fun go_calls :: "event list \<Rightarrow> subsystem list" where
  "go_calls [] = []"
| "go_calls (Go t # es) = t # go_calls es"
| "go_calls (e # es) = go_calls es"

section \<open>Properties\<close>

subsection \<open>What a call of Run yields\<close>

lemma Run_ret:
  "ret (Run env s) =
    (if started s then Returns (Some (Errorf ''server already started''))
     else if \<not> ctx_Done env then Blocks
     else Returns (map_option (Wrapf ''error shutting down HTTP server'')
                     (Shutdown env (30 * time_Second))))"
  by (simp add: Run_def Let_def split: option.splits)

lemma Run_trace:
  "trace (Run env s) =
    (if started s then [Mu_Lock, Mu_Unlock]
     else if \<not> ctx_Done env then
       [Mu_Lock, Mu_Unlock, Go Power, Go Thermal, Go Security, Go HTTP, Await_Done]
     else [Mu_Lock, Mu_Unlock, Go Power, Go Thermal, Go Security, Go HTTP, Await_Done,
           With_Timeout (30 * time_Second), Shutdown_call (30 * time_Second), Cancel_call])"
  by (simp add: Run_def Let_def split: option.splits)

lemma Run_srv: "srv (Run env s) = (if started s then s else s\<lparr>started := True\<rparr>)"
  by (simp add: Run_def Let_def split: option.splits)

lemma Run_tasks:
  "tasks (Run env s) =
    (if started s then []
     else [(Power, monitor_task ''Power monitoring error: '' (power_Monitor env)),
           (Thermal, monitor_task ''Thermal monitoring error: '' (thermal_Monitor env)),
           (Security, monitor_task ''Security monitoring error: '' (security_Monitor env)),
           (HTTP, listen_task (ListenAndServe env))])"
  by (simp add: Run_def Let_def split: option.splits)

lemma Run_diag_ret:
  "ret_diag (Run_diag env s) =
    (if started_diag s then Returns (Some (Errorf ''server already started''))
     else if \<not> ctx_Done env then Blocks
     else Returns (map_option (Wrapf ''error shutting down HTTP server'')
                     (Shutdown env (30 * time_Second))))"
  by (simp add: Run_diag_def Let_def split: option.splits)

lemma Run_diag_trace:
  "trace_diag (Run_diag env s) =
    (if started_diag s then [Mu_Lock, Mu_Unlock]
     else if \<not> ctx_Done env then
       [Mu_Lock, Mu_Unlock, Go Power, Go Thermal, Go State, Go Diagnostics, Go HTTP, Await_Done]
     else [Mu_Lock, Mu_Unlock, Go Power, Go Thermal, Go State, Go Diagnostics, Go HTTP,
           Await_Done, With_Timeout (30 * time_Second), Shutdown_call (30 * time_Second),
           Cancel_call])"
  by (simp add: Run_diag_def Let_def split: option.splits)

lemma Run_diag_srv:
  "srv_diag (Run_diag env s) = (if started_diag s then s else s\<lparr>started_diag := True\<rparr>)"
  by (simp add: Run_diag_def Let_def split: option.splits)

lemma Run_diag_tasks:
  "tasks_diag (Run_diag env s) =
    (if started_diag s then []
     else [(Power, monitor_task ''Power monitoring error: '' (power_Monitor env)),
           (Thermal, monitor_task ''Thermal monitoring error: '' (thermal_Monitor env)),
           (State, monitor_task ''State manager error: '' (state_Run env)),
           (Diagnostics, monitor_task ''Diagnostics error: '' (diag_Run env)),
           (HTTP, listen_task (ListenAndServe env))])"
  by (simp add: Run_diag_def Let_def split: option.splits)

lemma ServeHTTP_server: "fst (ServeHTTP table env s w r) = s"
  by (simp add: ServeHTTP_def handleHealth_def handleStatus_def Let_def
      split: option.splits handler.splits)

lemma started_step: "started s \<Longrightarrow> started (step s op)"
  by (cases op) (simp_all add: Run_srv ServeHTTP_server)

lemma started_exec: "started s \<Longrightarrow> started (exec s ops)"
  unfolding exec_def by (induction ops arbitrary: s) (simp_all add: started_step)

lemma started_exec_diag: "started_diag s \<Longrightarrow> started_diag (exec_diag s envs)"
  unfolding exec_diag_def by (induction envs arbitrary: s) (simp_all add: Run_diag_srv)

subsection \<open>The lifecycle of Run\<close>

text \<open>
  C1, as the spec states it: on an instance that was already running, \<open>Run\<close> returns
  a wrapped error. The error it returns there is made by \<open>fmt.Errorf\<close> without the
  verb \<open>%w\<close>: it is a new error that wraps no other, in both variants of the server.
\<close>

theorem Run_already_started_wraps_nothing:
  "started (test_server\<lparr>started := True\<rparr>) \<and>
   ret (Run quiet_run_env (test_server\<lparr>started := True\<rparr>)) =
     Returns (Some (Errorf ''server already started'')) \<and>
   started_diag (test_server_diag\<lparr>started_diag := True\<rparr>) \<and>
   ret_diag (Run_diag quiet_run_env (test_server_diag\<lparr>started_diag := True\<rparr>)) =
     Returns (Some (Errorf ''server already started'')) \<and>
   Unwrap (Errorf ''server already started'') = None"
  by (simp add: Run_ret Run_diag_ret)

text \<open>
  C1, amended. A call of \<open>Run\<close> on a server that has not been started blocks for as
  long as the context is not cancelled (it never returns, and never calls \<open>Shutdown\<close>,
  when the cancellation never comes). Once the context is cancelled it runs the shutdown
  sequence (a context with the 30 second timeout, one \<open>Shutdown\<close>, \<open>cancel\<close>) and
  returns nil when \<open>Shutdown\<close> returned nil, or an error that wraps the error of
  \<open>Shutdown\<close>. On a server that was already started it returns a new error,
  "server already started", which wraps nothing. It returns a non-nil error in these two
  cases and in no other. Both variants of the server behave so.
\<close>

theorem Run_blocks_until_cancelled:
  "(started s \<longrightarrow> ret (Run env s) = Returns (Some (Errorf ''server already started''))) \<and>
   (\<not> started s \<and> \<not> ctx_Done env \<longrightarrow>
      ret (Run env s) = Blocks \<and> shutdown_calls (trace (Run env s)) = []) \<and>
   (\<not> started s \<and> ctx_Done env \<longrightarrow>
      ret (Run env s) =
        Returns (map_option (Wrapf ''error shutting down HTTP server'')
                   (Shutdown env (30 * time_Second))) \<and>
      trace (Run env s) =
        [Mu_Lock, Mu_Unlock, Go Power, Go Thermal, Go Security, Go HTTP, Await_Done,
         With_Timeout (30 * time_Second), Shutdown_call (30 * time_Second), Cancel_call]) \<and>
   ((\<exists>e. ret (Run env s) = Returns (Some e)) \<longleftrightarrow>
      started s \<or> (ctx_Done env \<and> Shutdown env (30 * time_Second) \<noteq> None)) \<and>
   Option.bind (returned_error (ret (Run env s))) Unwrap =
     (if started s \<or> \<not> ctx_Done env then None else Shutdown env (30 * time_Second)) \<and>
   Option.bind (returned_error (ret_diag (Run_diag env sd))) Unwrap =
     (if started_diag sd \<or> \<not> ctx_Done env then None
      else Shutdown env (30 * time_Second)) \<and>
   (started_diag sd \<longrightarrow>
      ret_diag (Run_diag env sd) = Returns (Some (Errorf ''server already started''))) \<and>
   (\<not> started_diag sd \<and> \<not> ctx_Done env \<longrightarrow>
      ret_diag (Run_diag env sd) = Blocks \<and>
      shutdown_calls (trace_diag (Run_diag env sd)) = []) \<and>
   (\<not> started_diag sd \<and> ctx_Done env \<longrightarrow>
      ret_diag (Run_diag env sd) =
        Returns (map_option (Wrapf ''error shutting down HTTP server'')
                   (Shutdown env (30 * time_Second))) \<and>
      trace_diag (Run_diag env sd) =
        [Mu_Lock, Mu_Unlock, Go Power, Go Thermal, Go State, Go Diagnostics, Go HTTP,
         Await_Done, With_Timeout (30 * time_Second), Shutdown_call (30 * time_Second),
         Cancel_call]) \<and>
   ((\<exists>e. ret_diag (Run_diag env sd) = Returns (Some e)) \<longleftrightarrow>
      started_diag sd \<or> (ctx_Done env \<and> Shutdown env (30 * time_Second) \<noteq> None))"
proof -
  have wraps: "Option.bind (returned_error (Returns (map_option (Wrapf p) x))) Unwrap = x"
    for p x
    by (cases x) simp_all
  show ?thesis
    by (auto simp add: Run_ret Run_trace Run_diag_ret Run_diag_trace wraps)
qed

theorem Run_blocks_until_cancelled_witness:
  "\<not> started test_server \<and> \<not> started_diag test_server_diag \<and> ctx_Done quiet_run_env \<and>
   Shutdown quiet_run_env (30 * time_Second) = None \<and>
   ret (Run quiet_run_env test_server) = Returns None \<and>
   ret_diag (Run_diag quiet_run_env test_server_diag) = Returns None \<and>
   \<not> ctx_Done (quiet_run_env\<lparr>ctx_Done := False\<rparr>) \<and>
   ret (Run (quiet_run_env\<lparr>ctx_Done := False\<rparr>) test_server) = Blocks \<and>
   ret_diag (Run_diag (quiet_run_env\<lparr>ctx_Done := False\<rparr>) test_server_diag) = Blocks \<and>
   ret (Run (quiet_run_env\<lparr>Shutdown := slow_Shutdown\<rparr>) test_server) =
     Returns (Some (Wrapf ''error shutting down HTTP server'' DeadlineExceeded)) \<and>
   ret_diag (Run_diag (quiet_run_env\<lparr>Shutdown := slow_Shutdown\<rparr>) test_server_diag) =
     Returns (Some (Wrapf ''error shutting down HTTP server'' DeadlineExceeded)) \<and>
   Option.bind
     (returned_error (ret (Run (quiet_run_env\<lparr>Shutdown := slow_Shutdown\<rparr>) test_server)))
     Unwrap = Some DeadlineExceeded \<and>
   started (test_server\<lparr>started := True\<rparr>) \<and>
   ret (Run quiet_run_env (test_server\<lparr>started := True\<rparr>)) =
     Returns (Some (Errorf ''server already started'')) \<and>
   Option.bind (returned_error (ret (Run quiet_run_env (test_server\<lparr>started := True\<rparr>))))
     Unwrap = None \<and>
   started_diag (test_server_diag\<lparr>started_diag := True\<rparr>) \<and>
   ret_diag (Run_diag quiet_run_env (test_server_diag\<lparr>started_diag := True\<rparr>)) =
     Returns (Some (Errorf ''server already started''))"
proof -
  have fresh: "\<not> started test_server" "\<not> started_diag test_server_diag"
    by (simp_all add: test_server_def test_server_diag_def)
  have env: "ctx_Done quiet_run_env" "Shutdown quiet_run_env (30 * time_Second) = None"
    "Shutdown (quiet_run_env\<lparr>Shutdown := slow_Shutdown\<rparr>) (30 * time_Second) =
       Some DeadlineExceeded"
    by (simp_all add: quiet_run_env_def slow_Shutdown_def time_Second_def)
  note clean =
    Run_blocks_until_cancelled [where s = test_server and env = quiet_run_env
      and sd = test_server_diag]
  note blocked =
    Run_blocks_until_cancelled [where s = test_server
      and env = "quiet_run_env\<lparr>ctx_Done := False\<rparr>" and sd = test_server_diag]
  note failed =
    Run_blocks_until_cancelled [where s = test_server
      and env = "quiet_run_env\<lparr>Shutdown := slow_Shutdown\<rparr>" and sd = test_server_diag]
  note twice =
    Run_blocks_until_cancelled [where s = "test_server\<lparr>started := True\<rparr>"
      and env = quiet_run_env and sd = "test_server_diag\<lparr>started_diag := True\<rparr>"]
  from fresh env clean blocked failed twice show ?thesis
    by simp
qed

text \<open>
  C2. On a server that has been started, \<open>Run\<close> returns the error
  "server already started" and does nothing else: it locks and unlocks the mutex, starts
  no goroutine (no monitor, no listener), calls neither \<open>ListenAndServe\<close> nor
  \<open>Shutdown\<close>, and leaves every field of the server as it was.
\<close>

theorem Run_twice_rejected:
  "(started s \<longrightarrow>
      Run env s = \<lparr>ret = Returns (Some (Errorf ''server already started'')), srv = s,
                   trace = [Mu_Lock, Mu_Unlock], tasks = []\<rparr>) \<and>
   (started_diag sd \<longrightarrow>
      Run_diag env sd = \<lparr>ret_diag = Returns (Some (Errorf ''server already started'')),
                         srv_diag = sd, trace_diag = [Mu_Lock, Mu_Unlock], tasks_diag = []\<rparr>)"
  by (simp add: Run_def Run_diag_def)

theorem Run_twice_rejected_witness:
  "started (srv (Run quiet_run_env test_server)) \<and>
   started_diag (srv_diag (Run_diag quiet_run_env test_server_diag)) \<and>
   Run quiet_run_env (srv (Run quiet_run_env test_server)) =
     \<lparr>ret = Returns (Some (Errorf ''server already started'')),
      srv = srv (Run quiet_run_env test_server), trace = [Mu_Lock, Mu_Unlock], tasks = []\<rparr> \<and>
   go_calls (trace (Run quiet_run_env (srv (Run quiet_run_env test_server)))) = [] \<and>
   Run_diag quiet_run_env (srv_diag (Run_diag quiet_run_env test_server_diag)) =
     \<lparr>ret_diag = Returns (Some (Errorf ''server already started'')),
      srv_diag = srv_diag (Run_diag quiet_run_env test_server_diag),
      trace_diag = [Mu_Lock, Mu_Unlock], tasks_diag = []\<rparr>"
proof -
  have first: "started (srv (Run quiet_run_env test_server))"
    "started_diag (srv_diag (Run_diag quiet_run_env test_server_diag))"
    by (simp_all add: Run_srv Run_diag_srv)
  from first
    Run_twice_rejected [where s = "srv (Run quiet_run_env test_server)"
      and env = quiet_run_env
      and sd = "srv_diag (Run_diag quiet_run_env test_server_diag)"]
  show ?thesis by simp
qed

text \<open>
  C9. After a call of \<open>Run\<close> the flag \<open>started\<close> is set, and it stays set through
  every later sequence of operations on the server (further calls of \<open>Run\<close>, requests
  served by the handlers): nothing writes \<open>false\<close> to it. So every later call of
  \<open>Run\<close> returns the error "server already started", also when the first call has shut
  down cleanly and returned nil.
\<close>

theorem started_never_reset:
  "started (exec (srv (Run env s)) ops) \<and>
   ret (Run env' (exec (srv (Run env s)) ops)) =
     Returns (Some (Errorf ''server already started'')) \<and>
   started_diag (exec_diag (srv_diag (Run_diag env sd)) envs) \<and>
   ret_diag (Run_diag env' (exec_diag (srv_diag (Run_diag env sd)) envs)) =
     Returns (Some (Errorf ''server already started''))"
proof -
  have "started (srv (Run env s))"
    by (simp add: Run_srv)
  then have a: "started (exec (srv (Run env s)) ops)"
    by (rule started_exec)
  have "started_diag (srv_diag (Run_diag env sd))"
    by (simp add: Run_diag_srv)
  then have b: "started_diag (exec_diag (srv_diag (Run_diag env sd)) envs)"
    by (rule started_exec_diag)
  from a b show ?thesis
    by (simp add: Run_ret Run_diag_ret)
qed

theorem started_never_reset_witness:
  "ret (Run quiet_run_env test_server) = Returns None \<and>
   started (exec (srv (Run quiet_run_env test_server))
              [Op_Request test_status_env get_status, Op_Run quiet_run_env,
               Op_Request test_status_env post_health]) \<and>
   ret (Run quiet_run_env
          (exec (srv (Run quiet_run_env test_server))
             [Op_Request test_status_env get_status, Op_Run quiet_run_env,
              Op_Request test_status_env post_health])) =
     Returns (Some (Errorf ''server already started'')) \<and>
   ret_diag (Run_diag quiet_run_env test_server_diag) = Returns None \<and>
   ret_diag (Run_diag quiet_run_env
          (exec_diag (srv_diag (Run_diag quiet_run_env test_server_diag))
             [quiet_run_env, quiet_run_env])) =
     Returns (Some (Errorf ''server already started''))"
proof -
  have clean: "ret (Run quiet_run_env test_server) = Returns None"
    "ret_diag (Run_diag quiet_run_env test_server_diag) = Returns None"
    by (simp_all add: Run_ret Run_diag_ret test_server_def test_server_diag_def
        quiet_run_env_def)
  from clean
    started_never_reset [where s = test_server and env = quiet_run_env
      and env' = quiet_run_env and sd = test_server_diag
      and envs = "[quiet_run_env, quiet_run_env]"
      and ops = "[Op_Request test_status_env get_status, Op_Run quiet_run_env,
                  Op_Request test_status_env post_health]"]
  show ?thesis by simp
qed

subsection \<open>Construction\<close>

text \<open>
  C3. \<open>New\<close> calls the constructors in one fixed order, the GPIO controller first and
  then the managers that are given it, and stops at the first that fails: its calls are
  always an initial part of that order, a failure ends them, and the error returned
  wraps the constructor's error behind a message that names the subsystem. An empty
  device identifier is refused before anything is constructed. The server returned is
  nil exactly when the error is not nil. Both variants of the server behave so, each
  with its own list of managers.
\<close>

theorem New_fails_fast:
  "(fst (fst (New env cfg)) = None \<longleftrightarrow> snd (fst (New env cfg)) \<noteq> None) \<and>
   prefix (snd (New env cfg))
     [Construct GPIO, Construct Power, Construct Thermal, Construct Security] \<and>
   (DeviceID cfg = [] \<longrightarrow>
      New env cfg = ((None, Some (Errorf ''device ID is required'')), [])) \<and>
   (DeviceID cfg \<noteq> [] \<longrightarrow> take 1 (snd (New env cfg)) = [Construct GPIO]) \<and>
   (DeviceID cfg \<noteq> [] \<and> gpio_New env = Inl e \<longrightarrow>
      New env cfg =
        ((None, Some (Wrapf ''failed to initialize GPIO'' e)), [Construct GPIO])) \<and>
   (DeviceID cfg \<noteq> [] \<and> gpio_New env = Inr g \<and> power_New env g (DeviceID cfg) = Inl e \<longrightarrow>
      New env cfg =
        ((None, Some (Wrapf ''failed to initialize power management'' e)),
         [Construct GPIO, Construct Power])) \<and>
   (DeviceID cfg \<noteq> [] \<and> gpio_New env = Inr g \<and> power_New env g (DeviceID cfg) = Inr p \<and>
    thermal_New env g (DeviceID cfg) = Inl e \<longrightarrow>
      New env cfg =
        ((None, Some (Wrapf ''failed to initialize thermal management'' e)),
         [Construct GPIO, Construct Power, Construct Thermal])) \<and>
   (DeviceID cfg \<noteq> [] \<and> gpio_New env = Inr g \<and> power_New env g (DeviceID cfg) = Inr p \<and>
    thermal_New env g (DeviceID cfg) = Inr t \<and> secure_New env g (DeviceID cfg) = Inl e \<longrightarrow>
      New env cfg =
        ((None, Some (Wrapf ''failed to initialize security management'' e)),
         [Construct GPIO, Construct Power, Construct Thermal, Construct Security])) \<and>
   (DeviceID cfg \<noteq> [] \<and> gpio_New env = Inr g \<and> power_New env g (DeviceID cfg) = Inr p \<and>
    thermal_New env g (DeviceID cfg) = Inr t \<and> secure_New env g (DeviceID cfg) = Inr x \<longrightarrow>
      New env cfg =
        ((Some \<lparr>gpio = g, power = p, security = x, thermal = t, deviceID = DeviceID cfg,
                httpServer = \<lparr>Addr = HTTPAddr cfg, Handler = routes\<rparr>, started = False\<rparr>,
          None),
         [Construct GPIO, Construct Power, Construct Thermal, Construct Security])) \<and>
   (fst (fst (New_diag env cfg)) = None \<longleftrightarrow> snd (fst (New_diag env cfg)) \<noteq> None) \<and>
   prefix (snd (New_diag env cfg))
     [Construct GPIO, Construct Power, Construct Thermal, Construct State,
      Construct Diagnostics] \<and>
   (DeviceID cfg = [] \<longrightarrow>
      New_diag env cfg = ((None, Some (Errorf ''device ID is required'')), [])) \<and>
   (DeviceID cfg \<noteq> [] \<longrightarrow> take 1 (snd (New_diag env cfg)) = [Construct GPIO]) \<and>
   (DeviceID cfg \<noteq> [] \<and> gpio_New env = Inl e \<longrightarrow>
      New_diag env cfg =
        ((None, Some (Wrapf ''failed to initialize GPIO'' e)), [Construct GPIO])) \<and>
   (DeviceID cfg \<noteq> [] \<and> gpio_New env = Inr g \<and> power_New env g (DeviceID cfg) = Inl e \<longrightarrow>
      New_diag env cfg =
        ((None, Some (Wrapf ''failed to initialize power manager'' e)),
         [Construct GPIO, Construct Power])) \<and>
   (DeviceID cfg \<noteq> [] \<and> gpio_New env = Inr g \<and> power_New env g (DeviceID cfg) = Inr p \<and>
    thermal_New env g (DeviceID cfg) = Inl e \<longrightarrow>
      New_diag env cfg =
        ((None, Some (Wrapf ''failed to initialize thermal manager'' e)),
         [Construct GPIO, Construct Power, Construct Thermal])) \<and>
   (DeviceID cfg \<noteq> [] \<and> gpio_New env = Inr g \<and> power_New env g (DeviceID cfg) = Inr p \<and>
    thermal_New env g (DeviceID cfg) = Inr t \<and> state_New env (DeviceID cfg) = Inl e \<longrightarrow>
      New_diag env cfg =
        ((None, Some (Wrapf ''failed to initialize state manager'' e)),
         [Construct GPIO, Construct Power, Construct Thermal, Construct State])) \<and>
   (DeviceID cfg \<noteq> [] \<and> gpio_New env = Inr g \<and> power_New env g (DeviceID cfg) = Inr p \<and>
    thermal_New env g (DeviceID cfg) = Inr t \<and> state_New env (DeviceID cfg) = Inr y \<and>
    diagnostics_New env (DeviceID cfg) g = Inl e \<longrightarrow>
      New_diag env cfg =
        ((None, Some (Wrapf ''failed to initialize diagnostics'' e)),
         [Construct GPIO, Construct Power, Construct Thermal, Construct State,
          Construct Diagnostics])) \<and>
   (DeviceID cfg \<noteq> [] \<and> gpio_New env = Inr g \<and> power_New env g (DeviceID cfg) = Inr p \<and>
    thermal_New env g (DeviceID cfg) = Inr t \<and> state_New env (DeviceID cfg) = Inr y \<and>
    diagnostics_New env (DeviceID cfg) g = Inr z \<longrightarrow>
      New_diag env cfg =
        ((Some \<lparr>deviceID_diag = DeviceID cfg, httpAddr_diag = HTTPAddr cfg, gpio_diag = g,
                power_diag = p, thermal_diag = t, state_diag = y, diag_diag = z,
                httpServer_diag = \<lparr>Addr = HTTPAddr cfg, Handler = routes\<rparr>,
                started_diag = False\<rparr>,
          None),
         [Construct GPIO, Construct Power, Construct Thermal, Construct State,
          Construct Diagnostics]))"
proof -
  have nil: "fst (fst (New env cfg)) = None \<longleftrightarrow> snd (fst (New env cfg)) \<noteq> None"
    by (simp add: New_def split: sum.splits)
  have order: "prefix (snd (New env cfg))
      [Construct GPIO, Construct Power, Construct Thermal, Construct Security]"
    by (simp add: New_def split: sum.splits)
  have first: "DeviceID cfg \<noteq> [] \<longrightarrow> take 1 (snd (New env cfg)) = [Construct GPIO]"
    by (simp add: New_def split: sum.splits)
  have nil_diag:
    "fst (fst (New_diag env cfg)) = None \<longleftrightarrow> snd (fst (New_diag env cfg)) \<noteq> None"
    by (simp add: New_diag_def split: sum.splits)
  have order_diag: "prefix (snd (New_diag env cfg))
      [Construct GPIO, Construct Power, Construct Thermal, Construct State,
       Construct Diagnostics]"
    by (simp add: New_diag_def split: sum.splits)
  have first_diag:
    "DeviceID cfg \<noteq> [] \<longrightarrow> take 1 (snd (New_diag env cfg)) = [Construct GPIO]"
    by (simp add: New_diag_def split: sum.splits)
  from nil order first nil_diag order_diag first_diag show ?thesis
    by (simp add: New_def New_diag_def)
qed

theorem New_fails_fast_witness:
  "DeviceID test_config \<noteq> [] \<and>
   New ok_new_env test_config =
     ((Some test_server, None),
      [Construct GPIO, Construct Power, Construct Thermal, Construct Security]) \<and>
   New_diag ok_new_env test_config =
     ((Some test_server_diag, None),
      [Construct GPIO, Construct Power, Construct Thermal, Construct State,
       Construct Diagnostics]) \<and>
   New ok_new_env (test_config\<lparr>DeviceID := []\<rparr>) =
     ((None, Some (Errorf ''device ID is required'')), []) \<and>
   New_diag ok_new_env (test_config\<lparr>DeviceID := []\<rparr>) =
     ((None, Some (Errorf ''device ID is required'')), []) \<and>
   New (ok_new_env\<lparr>gpio_New := Inl (External ''no gpio chip'')\<rparr>) test_config =
     ((None, Some (Wrapf ''failed to initialize GPIO'' (External ''no gpio chip''))),
      [Construct GPIO]) \<and>
   New (ok_new_env\<lparr>power_New := (\<lambda>g d. Inl (External ''no adc''))\<rparr>) test_config =
     ((None, Some (Wrapf ''failed to initialize power management'' (External ''no adc''))),
      [Construct GPIO, Construct Power]) \<and>
   New (ok_new_env\<lparr>thermal_New := (\<lambda>g d. Inl (External ''no fan pin''))\<rparr>) test_config =
     ((None, Some (Wrapf ''failed to initialize thermal management'' (External ''no fan pin''))),
      [Construct GPIO, Construct Power, Construct Thermal]) \<and>
   New (ok_new_env\<lparr>secure_New := (\<lambda>g d. Inl (External ''no case sensor''))\<rparr>) test_config =
     ((None,
       Some (Wrapf ''failed to initialize security management'' (External ''no case sensor''))),
      [Construct GPIO, Construct Power, Construct Thermal, Construct Security]) \<and>
   New_diag (ok_new_env\<lparr>state_New := (\<lambda>d. Inl (External ''no store''))\<rparr>) test_config =
     ((None, Some (Wrapf ''failed to initialize state manager'' (External ''no store''))),
      [Construct GPIO, Construct Power, Construct Thermal, Construct State]) \<and>
   New_diag (ok_new_env\<lparr>diagnostics_New := (\<lambda>d g. Inl (External ''no probe''))\<rparr>) test_config =
     ((None, Some (Wrapf ''failed to initialize diagnostics'' (External ''no probe''))),
      [Construct GPIO, Construct Power, Construct Thermal, Construct State,
       Construct Diagnostics])"
proof -
  have cfg: "DeviceID test_config \<noteq> []" "DeviceID (test_config\<lparr>DeviceID := []\<rparr>) = []"
    "HTTPAddr test_config = '':0''" "DeviceID test_config = ''test-device-001''"
    by (simp_all add: test_config_def)
  have ok: "gpio_New ok_new_env = Inr 1" "power_New ok_new_env = (\<lambda>g d. Inr 2)"
    "thermal_New ok_new_env = (\<lambda>g d. Inr 3)" "secure_New ok_new_env = (\<lambda>g d. Inr 4)"
    "state_New ok_new_env = (\<lambda>d. Inr 5)" "diagnostics_New ok_new_env = (\<lambda>d g. Inr 6)"
    by (simp_all add: ok_new_env_def)
  note good =
    New_fails_fast [where env = ok_new_env and cfg = test_config and g = 1 and p = 2
      and t = 3 and x = 4 and y = 5 and z = 6]
  note no_id =
    New_fails_fast [where env = ok_new_env and cfg = "test_config\<lparr>DeviceID := []\<rparr>"]
  note no_gpio =
    New_fails_fast [where env = "ok_new_env\<lparr>gpio_New := Inl (External ''no gpio chip'')\<rparr>"
      and cfg = test_config and e = "External ''no gpio chip''"]
  note no_power =
    New_fails_fast [where env = "ok_new_env\<lparr>power_New := (\<lambda>g d. Inl (External ''no adc''))\<rparr>"
      and cfg = test_config and e = "External ''no adc''" and g = 1]
  note no_thermal =
    New_fails_fast
      [where env = "ok_new_env\<lparr>thermal_New := (\<lambda>g d. Inl (External ''no fan pin''))\<rparr>"
      and cfg = test_config and e = "External ''no fan pin''" and g = 1 and p = 2]
  note no_secure =
    New_fails_fast
      [where env = "ok_new_env\<lparr>secure_New := (\<lambda>g d. Inl (External ''no case sensor''))\<rparr>"
      and cfg = test_config and e = "External ''no case sensor''" and g = 1 and p = 2
      and t = 3]
  note no_state =
    New_fails_fast [where env = "ok_new_env\<lparr>state_New := (\<lambda>d. Inl (External ''no store''))\<rparr>"
      and cfg = test_config and e = "External ''no store''" and g = 1 and p = 2 and t = 3]
  note no_diag =
    New_fails_fast
      [where env = "ok_new_env\<lparr>diagnostics_New := (\<lambda>d g. Inl (External ''no probe''))\<rparr>"
      and cfg = test_config and e = "External ''no probe''" and g = 1 and p = 2 and t = 3
      and y = 5]
  have a: "New ok_new_env test_config =
     ((Some test_server, None),
      [Construct GPIO, Construct Power, Construct Thermal, Construct Security])"
    using good cfg ok by (simp add: test_server_def)
  have b: "New_diag ok_new_env test_config =
     ((Some test_server_diag, None),
      [Construct GPIO, Construct Power, Construct Thermal, Construct State,
       Construct Diagnostics])"
    using good cfg ok by (simp add: test_server_diag_def)
  have c: "New ok_new_env (test_config\<lparr>DeviceID := []\<rparr>) =
     ((None, Some (Errorf ''device ID is required'')), [])"
    "New_diag ok_new_env (test_config\<lparr>DeviceID := []\<rparr>) =
     ((None, Some (Errorf ''device ID is required'')), [])"
    using no_id cfg by simp_all
  have d: "New (ok_new_env\<lparr>gpio_New := Inl (External ''no gpio chip'')\<rparr>) test_config =
     ((None, Some (Wrapf ''failed to initialize GPIO'' (External ''no gpio chip''))),
      [Construct GPIO])"
    using no_gpio cfg by simp
  have e: "New (ok_new_env\<lparr>power_New := (\<lambda>g d. Inl (External ''no adc''))\<rparr>) test_config =
     ((None, Some (Wrapf ''failed to initialize power management'' (External ''no adc''))),
      [Construct GPIO, Construct Power])"
    using no_power cfg ok by simp
  have f: "New (ok_new_env\<lparr>thermal_New := (\<lambda>g d. Inl (External ''no fan pin''))\<rparr>) test_config =
     ((None, Some (Wrapf ''failed to initialize thermal management'' (External ''no fan pin''))),
      [Construct GPIO, Construct Power, Construct Thermal])"
    using no_thermal cfg ok by simp
  have g: "New (ok_new_env\<lparr>secure_New := (\<lambda>g d. Inl (External ''no case sensor''))\<rparr>)
      test_config =
     ((None,
       Some (Wrapf ''failed to initialize security management'' (External ''no case sensor''))),
      [Construct GPIO, Construct Power, Construct Thermal, Construct Security])"
    using no_secure cfg ok by simp
  have h: "New_diag (ok_new_env\<lparr>state_New := (\<lambda>d. Inl (External ''no store''))\<rparr>) test_config =
     ((None, Some (Wrapf ''failed to initialize state manager'' (External ''no store''))),
      [Construct GPIO, Construct Power, Construct Thermal, Construct State])"
    using no_state cfg ok by simp
  have i: "New_diag (ok_new_env\<lparr>diagnostics_New := (\<lambda>d g. Inl (External ''no probe''))\<rparr>)
      test_config =
     ((None, Some (Wrapf ''failed to initialize diagnostics'' (External ''no probe''))),
      [Construct GPIO, Construct Power, Construct Thermal, Construct State,
       Construct Diagnostics])"
    using no_diag cfg ok by simp
  from cfg(1) a b c d e f g h i show ?thesis
    by simp
qed

subsection \<open>Shutdown\<close>

text \<open>
  C4. The context that \<open>Run\<close> hands to the listener's \<open>Shutdown\<close> has a timeout of
  exactly 30 seconds (30,000,000,000 nanoseconds). \<open>Shutdown\<close> is called at most once
  in a call of \<open>Run\<close>, and exactly once, with that timeout, when an unstarted server's
  context is cancelled; whatever error that one call returns (the context's deadline
  error when the listener needs longer than the grace period) is returned by \<open>Run\<close>,
  wrapped, with no second attempt.
\<close>

theorem Shutdown_single_bounded_attempt:
  "30 * time_Second = 30000000000 \<and>
   length (shutdown_calls (trace (Run env s))) \<le> 1 \<and>
   (\<not> started s \<and> ctx_Done env \<longrightarrow>
      shutdown_calls (trace (Run env s)) = [30 * time_Second] \<and>
      With_Timeout (30 * time_Second) \<in> set (trace (Run env s)) \<and>
      (\<forall>err. Shutdown env (30 * time_Second) = Some err \<longrightarrow>
         ret (Run env s) = Returns (Some (Wrapf ''error shutting down HTTP server'' err)))) \<and>
   length (shutdown_calls (trace_diag (Run_diag env sd))) \<le> 1 \<and>
   (\<not> started_diag sd \<and> ctx_Done env \<longrightarrow>
      shutdown_calls (trace_diag (Run_diag env sd)) = [30 * time_Second] \<and>
      With_Timeout (30 * time_Second) \<in> set (trace_diag (Run_diag env sd)) \<and>
      (\<forall>err. Shutdown env (30 * time_Second) = Some err \<longrightarrow>
         ret_diag (Run_diag env sd) =
           Returns (Some (Wrapf ''error shutting down HTTP server'' err))))"
proof -
  have "30 * time_Second = 30000000000"
    by (simp add: time_Second_def)
  then show ?thesis
    by (simp add: Run_ret Run_trace Run_diag_ret Run_diag_trace)
qed

theorem Shutdown_single_bounded_attempt_witness:
  "\<not> started test_server \<and> \<not> started_diag test_server_diag \<and>
   ctx_Done (quiet_run_env\<lparr>Shutdown := slow_Shutdown\<rparr>) \<and>
   slow_Shutdown (30 * time_Second) = Some DeadlineExceeded \<and>
   slow_Shutdown (60 * time_Second) = None \<and>
   shutdown_calls (trace (Run (quiet_run_env\<lparr>Shutdown := slow_Shutdown\<rparr>) test_server)) =
     [30000000000] \<and>
   ret (Run (quiet_run_env\<lparr>Shutdown := slow_Shutdown\<rparr>) test_server) =
     Returns (Some (Wrapf ''error shutting down HTTP server'' DeadlineExceeded)) \<and>
   shutdown_calls
     (trace_diag (Run_diag (quiet_run_env\<lparr>Shutdown := slow_Shutdown\<rparr>) test_server_diag)) =
     [30000000000] \<and>
   ret_diag (Run_diag (quiet_run_env\<lparr>Shutdown := slow_Shutdown\<rparr>) test_server_diag) =
     Returns (Some (Wrapf ''error shutting down HTTP server'' DeadlineExceeded))"
proof -
  have fresh: "\<not> started test_server" "\<not> started_diag test_server_diag"
    by (simp_all add: test_server_def test_server_diag_def)
  have env: "ctx_Done (quiet_run_env\<lparr>Shutdown := slow_Shutdown\<rparr>)"
    "Shutdown (quiet_run_env\<lparr>Shutdown := slow_Shutdown\<rparr>) = slow_Shutdown"
    by (simp_all add: quiet_run_env_def)
  have slow: "slow_Shutdown (30 * time_Second) = Some DeadlineExceeded"
    "slow_Shutdown (60 * time_Second) = None"
    by (simp_all add: slow_Shutdown_def time_Second_def)
  from fresh env slow
    Shutdown_single_bounded_attempt [where s = test_server and sd = test_server_diag
      and env = "quiet_run_env\<lparr>Shutdown := slow_Shutdown\<rparr>"]
  show ?thesis by (simp add: time_Second_def)
qed

subsection \<open>Failures of the background goroutines\<close>

text \<open>
  C5. An error returned by a monitoring loop stays in that monitor's goroutine: the
  goroutine logs the error and ends. What the other goroutines (the other monitors, the
  listener) do does not depend on it, and neither do the result of \<open>Run\<close>, the server
  it leaves, or its calls: replacing the outcomes of the monitoring loops by any others
  changes none of them.
\<close>

theorem monitor_errors_stay_local:
  "ret (Run (env\<lparr>power_Monitor := a, thermal_Monitor := b, security_Monitor := c\<rparr>) s) =
     ret (Run env s) \<and>
   srv (Run (env\<lparr>power_Monitor := a, thermal_Monitor := b, security_Monitor := c\<rparr>) s) =
     srv (Run env s) \<and>
   trace (Run (env\<lparr>power_Monitor := a, thermal_Monitor := b, security_Monitor := c\<rparr>) s) =
     trace (Run env s) \<and>
   (\<not> started s \<and> power_Monitor env = Returns (Some e) \<longrightarrow>
      map_of (tasks (Run env s)) Power =
        Some (Exited [''Power monitoring error: '' @ Error_text e])) \<and>
   (\<not> started s \<and> thermal_Monitor env = Returns (Some e) \<longrightarrow>
      map_of (tasks (Run env s)) Thermal =
        Some (Exited [''Thermal monitoring error: '' @ Error_text e])) \<and>
   (\<not> started s \<and> security_Monitor env = Returns (Some e) \<longrightarrow>
      map_of (tasks (Run env s)) Security =
        Some (Exited [''Security monitoring error: '' @ Error_text e])) \<and>
   (k \<noteq> Power \<longrightarrow>
      map_of (tasks (Run (env\<lparr>power_Monitor := a\<rparr>) s)) k = map_of (tasks (Run env s)) k) \<and>
   (k \<noteq> Thermal \<longrightarrow>
      map_of (tasks (Run (env\<lparr>thermal_Monitor := b\<rparr>) s)) k = map_of (tasks (Run env s)) k) \<and>
   (k \<noteq> Security \<longrightarrow>
      map_of (tasks (Run (env\<lparr>security_Monitor := c\<rparr>) s)) k = map_of (tasks (Run env s)) k) \<and>
   ret_diag (Run_diag (env\<lparr>power_Monitor := a, thermal_Monitor := b, state_Run := c,
                           diag_Run := d\<rparr>) sd) =
     ret_diag (Run_diag env sd) \<and>
   srv_diag (Run_diag (env\<lparr>power_Monitor := a, thermal_Monitor := b, state_Run := c,
                           diag_Run := d\<rparr>) sd) =
     srv_diag (Run_diag env sd) \<and>
   trace_diag (Run_diag (env\<lparr>power_Monitor := a, thermal_Monitor := b, state_Run := c,
                             diag_Run := d\<rparr>) sd) =
     trace_diag (Run_diag env sd) \<and>
   (\<not> started_diag sd \<and> power_Monitor env = Returns (Some e) \<longrightarrow>
      map_of (tasks_diag (Run_diag env sd)) Power =
        Some (Exited [''Power monitoring error: '' @ Error_text e])) \<and>
   (\<not> started_diag sd \<and> thermal_Monitor env = Returns (Some e) \<longrightarrow>
      map_of (tasks_diag (Run_diag env sd)) Thermal =
        Some (Exited [''Thermal monitoring error: '' @ Error_text e])) \<and>
   (\<not> started_diag sd \<and> state_Run env = Returns (Some e) \<longrightarrow>
      map_of (tasks_diag (Run_diag env sd)) State =
        Some (Exited [''State manager error: '' @ Error_text e])) \<and>
   (\<not> started_diag sd \<and> diag_Run env = Returns (Some e) \<longrightarrow>
      map_of (tasks_diag (Run_diag env sd)) Diagnostics =
        Some (Exited [''Diagnostics error: '' @ Error_text e])) \<and>
   (k \<noteq> Power \<longrightarrow>
      map_of (tasks_diag (Run_diag (env\<lparr>power_Monitor := a\<rparr>) sd)) k =
        map_of (tasks_diag (Run_diag env sd)) k) \<and>
   (k \<noteq> Thermal \<longrightarrow>
      map_of (tasks_diag (Run_diag (env\<lparr>thermal_Monitor := b\<rparr>) sd)) k =
        map_of (tasks_diag (Run_diag env sd)) k) \<and>
   (k \<noteq> State \<longrightarrow>
      map_of (tasks_diag (Run_diag (env\<lparr>state_Run := c\<rparr>) sd)) k =
        map_of (tasks_diag (Run_diag env sd)) k) \<and>
   (k \<noteq> Diagnostics \<longrightarrow>
      map_of (tasks_diag (Run_diag (env\<lparr>diag_Run := d\<rparr>) sd)) k =
        map_of (tasks_diag (Run_diag env sd)) k)"
  by (simp add: Run_ret Run_srv Run_trace Run_tasks Run_diag_ret Run_diag_srv Run_diag_trace
      Run_diag_tasks monitor_task_def)

theorem monitor_errors_stay_local_witness:
  "\<not> started test_server \<and> \<not> started_diag test_server_diag \<and>
   power_Monitor (quiet_run_env\<lparr>power_Monitor := Returns (Some (External ''adc read failed''))\<rparr>) =
     Returns (Some (External ''adc read failed'')) \<and>
   ret (Run (quiet_run_env\<lparr>power_Monitor := Returns (Some (External ''adc read failed''))\<rparr>)
          test_server) = Returns None \<and>
   tasks (Run (quiet_run_env\<lparr>power_Monitor := Returns (Some (External ''adc read failed''))\<rparr>)
            test_server) =
     [(Power, Exited [''Power monitoring error: adc read failed'']), (Thermal, Exited []),
      (Security, Exited []), (HTTP, Exited [])] \<and>
   ret_diag (Run_diag (quiet_run_env\<lparr>state_Run := Returns (Some (External ''sync lost''))\<rparr>)
          test_server_diag) = Returns None \<and>
   map_of (tasks_diag (Run_diag (quiet_run_env\<lparr>state_Run := Returns (Some (External ''sync lost''))\<rparr>)
            test_server_diag)) State =
     Some (Exited [''State manager error: sync lost''])"
proof -
  have fresh: "\<not> started test_server" "\<not> started_diag test_server_diag"
    by (simp_all add: test_server_def test_server_diag_def)
  have quiet: "ret (Run quiet_run_env test_server) = Returns None"
    "ret_diag (Run_diag quiet_run_env test_server_diag) = Returns None"
    "tasks (Run quiet_run_env test_server) =
       [(Power, Exited []), (Thermal, Exited []), (Security, Exited []), (HTTP, Exited [])]"
    by (simp_all add: Run_ret Run_diag_ret Run_tasks test_server_def test_server_diag_def
        quiet_run_env_def monitor_task_def listen_task_def)
  note at_power =
    monitor_errors_stay_local [where s = test_server and sd = test_server_diag
      and env = "quiet_run_env\<lparr>power_Monitor := Returns (Some (External ''adc read failed''))\<rparr>"
      and e = "External ''adc read failed''"]
  note from_quiet =
    monitor_errors_stay_local [where s = test_server and sd = test_server_diag
      and env = quiet_run_env and a = "Returns (Some (External ''adc read failed''))"
      and b = "Returns None" and c = "Returns None"]
  note at_state =
    monitor_errors_stay_local [where s = test_server and sd = test_server_diag
      and env = "quiet_run_env\<lparr>state_Run := Returns (Some (External ''sync lost''))\<rparr>"
      and e = "External ''sync lost''"]
  note from_quiet_diag =
    monitor_errors_stay_local [where s = test_server and sd = test_server_diag
      and env = quiet_run_env and a = "Returns None" and b = "Returns None"
      and c = "Returns (Some (External ''sync lost''))" and d = "Returns None"]
  have p: "ret (Run (quiet_run_env\<lparr>power_Monitor := Returns (Some (External ''adc read failed''))\<rparr>)
          test_server) = Returns None"
    using from_quiet quiet by (simp add: quiet_run_env_def)
  have q: "ret_diag (Run_diag (quiet_run_env\<lparr>state_Run := Returns (Some (External ''sync lost''))\<rparr>)
          test_server_diag) = Returns None"
    using from_quiet_diag quiet by (simp add: quiet_run_env_def)
  have r: "map_of (tasks_diag (Run_diag
        (quiet_run_env\<lparr>state_Run := Returns (Some (External ''sync lost''))\<rparr>)
        test_server_diag)) State = Some (Exited [''State manager error: sync lost''])"
    using at_state fresh by simp
  have t: "tasks (Run (quiet_run_env\<lparr>power_Monitor := Returns (Some (External ''adc read failed''))\<rparr>)
            test_server) =
     [(Power, Exited [''Power monitoring error: adc read failed'']), (Thermal, Exited []),
      (Security, Exited []), (HTTP, Exited [])]"
    using fresh by (simp add: Run_tasks quiet_run_env_def monitor_task_def listen_task_def)
  from fresh p q r t at_power show ?thesis
    by simp
qed

text \<open>
  C10. What \<open>ListenAndServe\<close> returns reaches nothing but the log of the listener's own
  goroutine: an error other than \<open>ErrServerClosed\<close> (a failed bind, say) is printed
  there, and the result of \<open>Run\<close> is the same whatever \<open>ListenAndServe\<close> does. \<open>Run\<close>
  still blocks until the context is cancelled, and returns nil when \<open>Shutdown\<close> then
  returns nil, although the listener never served.
\<close>

theorem listener_failure_only_logged:
  "ret (Run (env\<lparr>ListenAndServe := l\<rparr>) s) = ret (Run env s) \<and>
   trace (Run (env\<lparr>ListenAndServe := l\<rparr>) s) = trace (Run env s) \<and>
   (\<not> started s \<and> ListenAndServe env = Returns (Some e) \<and> e \<noteq> ErrServerClosed \<longrightarrow>
      map_of (tasks (Run env s)) HTTP = Some (Exited [''HTTP server error: '' @ Error_text e])) \<and>
   (\<not> started s \<and> \<not> ctx_Done env \<longrightarrow> ret (Run env s) = Blocks) \<and>
   (\<not> started s \<and> ctx_Done env \<and> Shutdown env (30 * time_Second) = None \<longrightarrow>
      ret (Run env s) = Returns None) \<and>
   ret_diag (Run_diag (env\<lparr>ListenAndServe := l\<rparr>) sd) = ret_diag (Run_diag env sd) \<and>
   trace_diag (Run_diag (env\<lparr>ListenAndServe := l\<rparr>) sd) = trace_diag (Run_diag env sd) \<and>
   (\<not> started_diag sd \<and> ListenAndServe env = Returns (Some e) \<and> e \<noteq> ErrServerClosed \<longrightarrow>
      map_of (tasks_diag (Run_diag env sd)) HTTP =
        Some (Exited [''HTTP server error: '' @ Error_text e])) \<and>
   (\<not> started_diag sd \<and> \<not> ctx_Done env \<longrightarrow> ret_diag (Run_diag env sd) = Blocks) \<and>
   (\<not> started_diag sd \<and> ctx_Done env \<and> Shutdown env (30 * time_Second) = None \<longrightarrow>
      ret_diag (Run_diag env sd) = Returns None)"
  by (simp add: Run_ret Run_trace Run_tasks Run_diag_ret Run_diag_trace Run_diag_tasks
      listen_task_def)

theorem listener_failure_only_logged_witness:
  "\<not> started test_server \<and> \<not> started_diag test_server_diag \<and>
   ListenAndServe (quiet_run_env\<lparr>ListenAndServe :=
       Returns (Some (External ''listen tcp :8080: bind: address already in use''))\<rparr>) =
     Returns (Some (External ''listen tcp :8080: bind: address already in use'')) \<and>
   ret (Run (quiet_run_env\<lparr>ListenAndServe :=
       Returns (Some (External ''listen tcp :8080: bind: address already in use''))\<rparr>)
     test_server) = Returns None \<and>
   map_of (tasks (Run (quiet_run_env\<lparr>ListenAndServe :=
       Returns (Some (External ''listen tcp :8080: bind: address already in use''))\<rparr>)
     test_server)) HTTP =
     Some (Exited [''HTTP server error: listen tcp :8080: bind: address already in use'']) \<and>
   ret_diag (Run_diag (quiet_run_env\<lparr>ListenAndServe :=
       Returns (Some (External ''listen tcp :8080: bind: address already in use''))\<rparr>)
     test_server_diag) = Returns None \<and>
   ret (Run (quiet_run_env\<lparr>ctx_Done := False, ListenAndServe :=
       Returns (Some (External ''listen tcp :8080: bind: address already in use''))\<rparr>)
     test_server) = Blocks"
proof -
  have fresh: "\<not> started test_server" "\<not> started_diag test_server_diag"
    by (simp_all add: test_server_def test_server_diag_def)
  have env: "ctx_Done quiet_run_env" "Shutdown quiet_run_env = (\<lambda>d. None)"
    by (simp_all add: quiet_run_env_def)
  note bind =
    listener_failure_only_logged [where s = test_server and sd = test_server_diag
      and env = "quiet_run_env\<lparr>ListenAndServe :=
        Returns (Some (External ''listen tcp :8080: bind: address already in use''))\<rparr>"
      and e = "External ''listen tcp :8080: bind: address already in use''"]
  note never_cancelled =
    listener_failure_only_logged [where s = test_server and sd = test_server_diag
      and env = "quiet_run_env\<lparr>ctx_Done := False, ListenAndServe :=
        Returns (Some (External ''listen tcp :8080: bind: address already in use''))\<rparr>"]
  from fresh env bind never_cancelled show ?thesis
    by simp
qed

subsection \<open>The HTTP endpoints\<close>


lemma routes_health: "map_of routes ''/health'' = Some HandleHealth"
  by (simp add: routes_def)

lemma http_Error_Code: "\<not> wroteHeader w \<Longrightarrow> Code (http_Error w msg code) = code"
  by (simp add: http_Error_def Header_Set_def WriteHeader_def Write_def Let_def)




text \<open>
  C7. A \<open>GET\<close> request for \<open>/health\<close>, answered on a response that has no status line
  yet, gets status 200 and the encoded map \<open>{"status": "ok"}\<close>. The response and the
  handler's calls are the same for every state of the monitors, every clock and every
  server: the handler reads none of them. A request for that path with any other method
  gets status 405. In both cases the server is left as it was.
\<close>

theorem health_endpoint:
  "Path r = ''/health'' \<Longrightarrow> \<not> wroteHeader w \<Longrightarrow>
   (Method r = ''GET'' \<longrightarrow>
      Code (fst (snd (ServeHTTP routes env s w r))) = 200 \<and>
      Body (fst (snd (ServeHTTP routes env s w r))) = Body w @ [Json_map [(''status'', ''ok'')]] \<and>
      HeaderMap (fst (snd (ServeHTTP routes env s w r))) ''Content-Type'' =
        Some ''application/json'') \<and>
   (Method r \<noteq> ''GET'' \<longrightarrow> Code (fst (snd (ServeHTTP routes env s w r))) = 405) \<and>
   snd (ServeHTTP routes env s w r) = snd (ServeHTTP routes env' s' w r) \<and>
   fst (ServeHTTP routes env s w r) = s"
  by (simp add: ServeHTTP_def routes_health handleHealth_def MethodGet_def Let_def
      StatusMethodNotAllowed_def http_Error_Code Write_def WriteHeader_def Header_Set_def)

theorem health_endpoint_witness:
  "Path get_health = ''/health'' \<and> Method get_health = ''GET'' \<and>
   Path post_health = ''/health'' \<and> Method post_health \<noteq> ''GET'' \<and>
   \<not> wroteHeader NewRecorder \<and>
   Code (fst (snd (ServeHTTP routes test_status_env test_server NewRecorder get_health))) = 200 \<and>
   Body (fst (snd (ServeHTTP routes test_status_env test_server NewRecorder get_health))) =
     [Json_map [(''status'', ''ok'')]] \<and>
   Code (fst (snd (ServeHTTP routes test_status_env test_server NewRecorder post_health))) = 405 \<and>
   fst (ServeHTTP routes test_status_env test_server NewRecorder post_health) = test_server"
proof -
  have req: "Path get_health = ''/health''" "Method get_health = ''GET''"
    "Path post_health = ''/health''" "Method post_health \<noteq> ''GET''"
    by (simp_all add: get_health_def post_health_def)
  have fresh: "\<not> wroteHeader NewRecorder" "Body NewRecorder = []"
    by (simp_all add: NewRecorder_def)
  note get = health_endpoint [OF req(1) fresh(1), where env = test_status_env and s = test_server]
  note post = health_endpoint [OF req(3) fresh(1), where env = test_status_env and s = test_server]
  from req fresh get post show ?thesis
    by simp
qed

text \<open>
  C8, as the spec states it: the server's read lock is not held while a monitor's
  snapshot accessor runs. The handler does otherwise: on the test's \<open>GET\<close> request the
  call of the power manager's \<open>GetState\<close> is one of the calls made under the read lock.
\<close>

theorem status_lock_held_over_accessor:
  "Get_State Power \<in>
     set (under_RLock False
            (snd (snd (handleStatus test_status_env test_server NewRecorder get_status))))"
  by (simp add: handleStatus_def get_status_def MethodGet_def Let_def)

text \<open>
  C8, amended. A \<open>GET\<close> request takes the server's read lock once, as the handler's first
  call after the method check, and releases it once, as its last (the deferred
  \<open>RUnlock\<close>). Everything the handler does lies in between, under the lock: the three
  snapshot accessors, the reading of the clock and the encoding of the response. The
  handler never takes the exclusive lock, and a request with another method takes no
  lock at all.
\<close>

theorem status_lock_spans_handler:
  "(Method r = MethodGet \<longrightarrow>
      snd (snd (handleStatus env s w r)) =
        [Mu_RLock, Get_State Power, Get_State Thermal, Get_State Security, Time_Now,
         Header_Set_call ''Content-Type'' ''application/json'', Encode_call, Mu_RUnlock] \<and>
      under_RLock False (snd (snd (handleStatus env s w r))) =
        [Get_State Power, Get_State Thermal, Get_State Security, Time_Now,
         Header_Set_call ''Content-Type'' ''application/json'', Encode_call] \<and>
      count_list (snd (snd (handleStatus env s w r))) Mu_RLock = 1 \<and>
      count_list (snd (snd (handleStatus env s w r))) Mu_RUnlock = 1) \<and>
   (Method r \<noteq> MethodGet \<longrightarrow>
      Mu_RLock \<notin> set (snd (snd (handleStatus env s w r))) \<and>
      under_RLock False (snd (snd (handleStatus env s w r))) = []) \<and>
   Mu_Lock \<notin> set (snd (snd (handleStatus env s w r)))"
  by (simp add: handleStatus_def Let_def)

theorem status_lock_spans_handler_witness:
  "Method get_status = MethodGet \<and> Method post_status \<noteq> MethodGet \<and>
   under_RLock False
     (snd (snd (handleStatus test_status_env test_server NewRecorder get_status))) =
     [Get_State Power, Get_State Thermal, Get_State Security, Time_Now,
      Header_Set_call ''Content-Type'' ''application/json'', Encode_call] \<and>
   under_RLock False
     (snd (snd (handleStatus test_status_env test_server NewRecorder post_status))) = []"
proof -
  have req: "Method get_status = MethodGet" "Method post_status \<noteq> MethodGet"
    by (simp_all add: get_status_def post_status_def MethodGet_def)
  from req
    status_lock_spans_handler [where r = get_status and env = test_status_env
      and s = test_server and w = NewRecorder]
    status_lock_spans_handler [where r = post_status and env = test_status_env
      and s = test_server and w = NewRecorder]
  show ?thesis by simp
qed

end
